theory Spec2Isabelle
  imports Main
begin

section \<open>Values of the host language\<close>

text \<open>
  The fragment of JavaScript values that \<open>Context.ts\<close> handles as \<open>unknown\<close>: interpolated
  template values, resolver results and translation results. Numbers and objects are left
  out (their stringification is a matter of floating point and of user code).
\<close>

datatype jsval = JUndefined | JNull | JBool bool | JString string | JArray "jsval list"

text \<open>The test behind the operator \<open>??\<close>: only \<open>undefined\<close> and \<open>null\<close> are nullish.\<close>

fun nullish :: "jsval \<Rightarrow> bool" where
  "nullish JUndefined = True"
| "nullish JNull = True"
| "nullish (JBool b) = False"
| "nullish (JString s) = False"
| "nullish (JArray vs) = False"

definition coalesce :: "jsval \<Rightarrow> jsval \<Rightarrow> jsval" where
  "coalesce a b = (if nullish a then b else a)"

text \<open>\<open>Array.prototype.join\<close> on strings.\<close>

fun js_join :: "string \<Rightarrow> string list \<Rightarrow> string" where
  "js_join sep [] = []"
| "js_join sep [x] = x"
| "js_join sep (x # y # ys) = x @ sep @ js_join sep (y # ys)"

text \<open>
  \<open>ToString\<close>. An array prints its elements separated by commas, a nullish element
  printing as the empty string. For the values above, \<open>s + v\<close> with a string \<open>s\<close> appends
  \<open>to_string v\<close>.
\<close>

fun to_string :: "jsval \<Rightarrow> string" where
  "to_string JUndefined = ''undefined''"
| "to_string JNull = ''null''"
| "to_string (JBool b) = (if b then ''true'' else ''false'')"
| "to_string (JString s) = s"
| "to_string (JArray vs) = js_join '','' (map (\<lambda>v. if nullish v then [] else to_string v) vs)"

text \<open>\<open>values[i]\<close>: reading past the end of an array yields \<open>undefined\<close>.\<close>

definition js_index :: "jsval list \<Rightarrow> nat \<Rightarrow> jsval" where
  "js_index vs i = (if i < length vs then vs ! i else JUndefined)"

type_synonym dictionary = "(string \<times> jsval) list"

section \<open>Objects of the chat library\<close>

type_synonym user = nat
type_synonym guild_member = nat
type_synonym guild = nat
type_synonym channel = nat
type_synonym handler = nat
type_synonym lang = nat

text \<open>
  A message handle carries what the constructor reads from it. Its attachments are
  mutable state of the chat library and are read through the world (see \<open>env\<close>), so that
  two references to one message always agree on them.
\<close>

record msg =
  msg_id :: string
  msg_author :: user
  msg_member :: "guild_member option"
  msg_guild :: "guild option"
  msg_channel :: channel

datatype embed = Embed nat

text \<open>The argument of \<open>reply\<close> and \<open>edit\<close>: \<open>string | Embed\<close>.\<close>

datatype content = Text string | Rich embed

text \<open>
  What reaches \<open>channel.send\<close> and \<open>message.edit\<close>: the string itself, or the builder
  callback \<open>b => b.setEmbed(content)\<close>.
\<close>

datatype payload = Content string | Builder embed

text \<open>
  Failures. \<open>JsError\<close> is an \<open>Error\<close> object made by \<open>new Error(message)\<close> in this class,
  \<open>JsTypeError\<close> is the runtime's failure on a property access on \<open>undefined\<close>, and
  \<open>Rejected\<close> is a failure raised by a collaborator and passed on unchanged.
\<close>

datatype error = JsError string | JsTypeError | Rejected string

section \<open>The context\<close>

text \<open>
  The mutable fields of the class. The fields \<open>client\<close> and \<open>dispatcher\<close> are read-only
  references to collaborators and are the environment below; \<open>params\<close> and \<open>flags\<close> hold
  objects of classes defined elsewhere, which no method of this class reads or writes
  after the constructor. \<open>messages\<close> is a \<open>Map\<close>, kept in insertion order. The field
  \<open>member\<close> of the class is \<open>invoker\<close> here, \<open>member\<close> being a constant of HOL.
\<close>

record Context =
  message :: msg
  author :: user
  invoker :: "guild_member option"
  guild :: "guild option"
  channel :: channel
  shouldEdit :: bool
  lastResponse :: "msg option"
  messages :: "(string \<times> msg) list"
  parseIndex :: nat

text \<open>
  The collaborators, over a state \<open>'w\<close> of the world outside the context. A call that can
  fail returns \<open>Inl\<close> of the reason; a callback that receives the context may change its
  public fields and returns it.
  \<^item> \<open>channel_send\<close>: \<open>channel.send(...)\<close>, resolving to the array of messages sent;
  \<^item> \<open>message_edit\<close>: \<open>message.edit(...)\<close>;
  \<^item> \<open>attachments_size\<close>: \<open>message.attachments.size\<close>;
  \<^item> \<open>resolver_type\<close>: \<open>dispatcher.resolver.type(name)\<close>;
  \<^item> \<open>handlers_get\<close>: \<open>client.handlers.get(key)\<close>;
  \<^item> \<open>getLanguage\<close>: \<open>dispatcher.options.getLanguage\<close>, an optional callback;
  \<^item> \<open>languages_get\<close>: \<open>languages.get(code)\<close> on the language handler;
  \<^item> \<open>language_translate\<close>: \<open>language.translate(path, vars)\<close>.
\<close>

record 'w env =
  channel_send :: "channel \<Rightarrow> payload \<Rightarrow> 'w \<Rightarrow> (string + msg list) \<times> 'w"
  message_edit :: "msg \<Rightarrow> payload \<Rightarrow> 'w \<Rightarrow> (string + msg) \<times> 'w"
  attachments_size :: "'w \<Rightarrow> msg \<Rightarrow> nat"
  resolver_type :: "'w \<Rightarrow> string \<Rightarrow>
    (string \<Rightarrow> Context \<Rightarrow> 'w \<Rightarrow> (string + jsval) \<times> Context \<times> 'w) option"
  handlers_get :: "'w \<Rightarrow> string \<Rightarrow> handler option"
  getLanguage :: "(handler \<Rightarrow> Context \<Rightarrow> 'w \<Rightarrow> (string + string) \<times> Context \<times> 'w) option"
  languages_get :: "'w \<Rightarrow> handler \<Rightarrow> string \<Rightarrow> lang option"
  language_translate :: "lang \<Rightarrow> string \<Rightarrow> dictionary \<Rightarrow> 'w \<Rightarrow> (string + jsval) \<times> 'w"

text \<open>An awaited promise of a collaborator: its rejection becomes the caller's failure.\<close>

definition settle :: "string + 'a \<Rightarrow> error + 'a" where
  "settle r = (case r of Inl x \<Rightarrow> Inl (Rejected x) | Inr v \<Rightarrow> Inr v)"

text \<open>The constructor (lines 82 to 101).\<close>

definition new_Context :: "msg \<Rightarrow> Context" where
  "new_Context m =
     \<lparr> message = m,
       author = msg_author m,
       invoker = msg_member m,
       guild = msg_guild m,
       channel = msg_channel m,
       shouldEdit = False,
       lastResponse = None,
       messages = [],
       parseIndex = 0 \<rparr>"

text \<open>
  \<open>setLastResponse\<close> (lines 189 to 193) takes \<open>Message | Message[]\<close>. Of an array it keeps
  \<open>message.slice(-1)[0]\<close>: the last element, \<open>undefined\<close> for the empty array. It returns the
  field it has just written.
\<close>

datatype sent = Single msg | Several "msg list"

definition setLastResponse :: "sent \<Rightarrow> Context \<Rightarrow> msg option \<times> Context" where
  "setLastResponse sent_message s =
     (let s' = (case sent_message of
                  Several ms \<Rightarrow> s\<lparr>lastResponse := (if ms = [] then None else Some (last ms))\<rparr>
                | Single m \<Rightarrow> s\<lparr>lastResponse := Some m\<rparr>)
      in (lastResponse s', s'))"

text \<open>\<open>setEditable\<close> (lines 199 to 202).\<close>

definition setEditable :: "bool \<Rightarrow> Context \<Rightarrow> Context" where
  "setEditable state s = s\<lparr>shouldEdit := state\<rparr>"

text \<open>
  \<open>edit\<close> (lines 135 to 139). \<open>this.lastResponse!.edit\<close> on an absent last response is a
  property access on \<open>undefined\<close>.
\<close>

definition edit :: "'w env \<Rightarrow> content \<Rightarrow> Context \<Rightarrow> 'w \<Rightarrow> (error + msg) \<times> Context \<times> 'w" where
  "edit E c s w =
     (case c of
        Text str \<Rightarrow>
          (case lastResponse s of
             None \<Rightarrow> (Inl JsTypeError, s, w)
           | Some m \<Rightarrow> (case message_edit E m (Content str) w of (r, w') \<Rightarrow> (settle r, s, w')))
      | Rich e \<Rightarrow>
          (case lastResponse s of
             None \<Rightarrow> (Inl JsTypeError, s, w)
           | Some m \<Rightarrow> (case message_edit E m (Builder e) w of (r, w') \<Rightarrow> (settle r, s, w'))))"

text \<open>
  The guard of \<open>reply\<close> (line 117): \<open>this.shouldEdit && !this.lastResponse?.attachments.size\<close>.
  With no last response the optional chain is \<open>undefined\<close>, whose negation is true.
\<close>

definition edits_last :: "'w env \<Rightarrow> Context \<Rightarrow> 'w \<Rightarrow> bool" where
  "edits_last E s w =
     (shouldEdit s \<and>
      (case lastResponse s of None \<Rightarrow> True | Some m \<Rightarrow> attachments_size E w m = 0))"

text \<open>
  \<open>reply\<close> (lines 116 to 129). After the send, \<open>lastSent.attachments\<close> fails on
  \<open>undefined\<close> when the array was empty; otherwise the array is not empty and
  \<open>messages[messages.length - 1]\<close> is its last element.
\<close>

definition reply :: "'w env \<Rightarrow> content \<Rightarrow> Context \<Rightarrow> 'w \<Rightarrow> (error + msg) \<times> Context \<times> 'w" where
  "reply E c s w =
     (if edits_last E s w then edit E c s w
      else
        (case channel_send E (channel s) (case c of Text str \<Rightarrow> Content str | Rich e \<Rightarrow> Builder e) w of
           (Inl x, w') \<Rightarrow> (Inl (Rejected x), s, w')
         | (Inr ms, w') \<Rightarrow>
             (case setLastResponse (Several ms) s of
                (None, s1) \<Rightarrow> (Inl JsTypeError, s1, w')
              | (Some lastSent, s1) \<Rightarrow>
                  (Inr (last ms), setEditable (attachments_size E w' lastSent = 0) s1, w'))))"

text \<open>
  \<open>language\<close> (lines 106 to 110). The option \<open>getLanguage\<close> is asserted to be present;
  calling it when it is absent is a property access on \<open>undefined\<close>.
\<close>

definition language :: "'w env \<Rightarrow> Context \<Rightarrow> 'w \<Rightarrow> (error + lang option) \<times> Context \<times> 'w" where
  "language E s w =
     (case handlers_get E w ''languages'' of
        None \<Rightarrow> (Inr None, s, w)
      | Some languages \<Rightarrow>
          (case getLanguage E of
             None \<Rightarrow> (Inl JsTypeError, s, w)
           | Some f \<Rightarrow>
               (case f languages s w of
                  (Inl x, s', w') \<Rightarrow> (Inl (Rejected x), s', w')
                | (Inr code, s', w') \<Rightarrow> (Inr (languages_get E w' languages code), s', w'))))"

text \<open>\<open>resolve\<close> (lines 147 to 151).\<close>

definition resolve ::
  "'w env \<Rightarrow> string \<Rightarrow> string \<Rightarrow> Context \<Rightarrow> 'w \<Rightarrow> (error + jsval) \<times> Context \<times> 'w" where
  "resolve E input tname s w =
     (case resolver_type E w tname of
        None \<Rightarrow> (Inl (JsError (''Type '' @ [CHR 0x22] @ tname @ [CHR 0x22] @ '' does not exist.'')), s, w)
      | Some resolver \<Rightarrow>
          (case resolver input s w of
             (Inl x, s', w') \<Rightarrow> (Inl (Rejected x), s', w')
           | (Inr v, s', w') \<Rightarrow> (Inr (coalesce v JNull), s', w')))"

text \<open>\<open>translate\<close> (lines 158 to 162).\<close>

definition translate ::
  "'w env \<Rightarrow> string \<Rightarrow> dictionary \<Rightarrow> Context \<Rightarrow> 'w \<Rightarrow> (error + jsval) \<times> Context \<times> 'w" where
  "translate E path vars s w =
     (case language E s w of
        (Inr (Some l), s', w') \<Rightarrow>
          (case language_translate E l path vars w' of (r, w'') \<Rightarrow> (settle r, s', w''))
      | (Inr None, s', w') \<Rightarrow> (Inl (JsError ''No Language Handler Available''), s', w')
      | (Inl e, s', w') \<Rightarrow> (Inl e, s', w'))"

text \<open>
  \<open>t\<close> (lines 167 to 182). \<open>joined\<close> is line 176:
  \<open>strings.map((s, i) => s + (values[i] ?? "")).join("")\<close>.
\<close>

definition joined :: "string list \<Rightarrow> jsval list \<Rightarrow> string" where
  "joined strings vals =
     concat (map (\<lambda>(s, i). s @ to_string (coalesce (js_index vals i) (JString [])))
               (zip strings [0 ..< length strings]))"

text \<open>
  The local closure \<open>translate\<close> of \<open>t\<close> (lines 174 to 179): given the variables, a tag
  function of the literal segments and the rest parameter \<open>...values\<close>.
\<close>

definition t_translate ::
  "'w env \<Rightarrow> dictionary \<Rightarrow> string list \<Rightarrow> jsval list \<Rightarrow>
     Context \<Rightarrow> 'w \<Rightarrow> (error + jsval) \<times> Context \<times> 'w" where
  "t_translate E vars strings vals = translate E (joined strings vals) vars"

text \<open>
  The first argument of \<open>t\<close> is the array of literal segments or a dictionary. Line 181:
  \<open>Array.isArray(a1) ? translate()(a1, a2) : translate(a1)\<close>. In the first case the array
  \<open>a2\<close> is passed as one argument, so the rest parameter of the tag function is the
  one-element array \<open>[a2]\<close>; the result is a promise. In the second the result is the tag
  function itself.
\<close>

datatype t_arg = Strings "string list" | Vars dictionary

definition t ::
  "'w env \<Rightarrow> t_arg \<Rightarrow> jsval list \<Rightarrow>
     (Context \<Rightarrow> 'w \<Rightarrow> (error + jsval) \<times> Context \<times> 'w) +
     (string list \<Rightarrow> jsval list \<Rightarrow> Context \<Rightarrow> 'w \<Rightarrow> (error + jsval) \<times> Context \<times> 'w)" where
  "t E a1 a2 =
     (case a1 of
        Strings strings \<Rightarrow> Inl (t_translate E [] strings [JArray a2])
      | Vars vars \<Rightarrow> Inr (t_translate E vars))"

section \<open>Sequences of calls\<close>

text \<open>
  Calling \<open>reply\<close> once for each element of a list, each call starting from the context and
  the world the one before left, whether it failed or not; \<open>edit_all\<close> does the same with
  \<open>edit\<close>.
\<close>

fun reply_all ::
  "'w env \<Rightarrow> content list \<Rightarrow> Context \<Rightarrow> 'w \<Rightarrow> (error + msg) list \<times> Context \<times> 'w" where
  "reply_all E [] s w = ([], s, w)"
| "reply_all E (c # cs) s w =
     (case reply E c s w of
        (r, s', w') \<Rightarrow> (case reply_all E cs s' w' of (rs, s'', w'') \<Rightarrow> (r # rs, s'', w'')))"

fun edit_all ::
  "'w env \<Rightarrow> content list \<Rightarrow> Context \<Rightarrow> 'w \<Rightarrow> (error + msg) list \<times> Context \<times> 'w" where
  "edit_all E [] s w = ([], s, w)"
| "edit_all E (c # cs) s w =
     (case edit E c s w of
        (r, s', w') \<Rightarrow> (case edit_all E cs s' w' of (rs, s'', w'') \<Rightarrow> (r # rs, s'', w'')))"

section \<open>A small world to run the methods in\<close>

text \<open>
  The world is the attachment count of each message by identifier, the newest entry first.
  Every send produces the messages of \<open>batch\<close> with the attachment counts given there; an
  edit returns the message edited and leaves it with \<open>k\<close> attachments. There are resolvers
  for the types \<open>string\<close> and \<open>nothing\<close>, and one language, \<open>en\<close>.
\<close>

type_synonym demo_world = "(string \<times> nat) list"

definition demo_msg :: "string \<Rightarrow> channel \<Rightarrow> msg" where
  "demo_msg i ch =
     \<lparr> msg_id = i, msg_author = 0, msg_member = None, msg_guild = None, msg_channel = ch \<rparr>"

definition demo_env :: "(string \<times> nat) list \<Rightarrow> nat \<Rightarrow> demo_world env" where
  "demo_env batch k =
     \<lparr> channel_send = (\<lambda>ch p w. (Inr (map (\<lambda>(i, n). demo_msg i ch) batch), batch @ w)),
       message_edit = (\<lambda>m p w. (Inr m, (msg_id m, k) # w)),
       attachments_size = (\<lambda>w m. case map_of w (msg_id m) of None \<Rightarrow> 0 | Some n \<Rightarrow> n),
       resolver_type = (\<lambda>w name.
         if name = ''string'' then Some (\<lambda>input s w'. (Inr (JString input), s, w'))
         else if name = ''nothing'' then Some (\<lambda>input s w'. (Inr JUndefined, s, w'))
         else None),
       handlers_get = (\<lambda>w key. if key = ''languages'' then Some 0 else None),
       getLanguage = Some (\<lambda>h s w. (Inr ''en'', s, w)),
       languages_get = (\<lambda>w h code. if code = ''en'' then Some 0 else None),
       language_translate = (\<lambda>l path vars w. (Inr (JString (''en:'' @ path)), w)) \<rparr>"

text \<open>The message that starts the invocation, from user 7 in channel 3.\<close>

definition incoming :: msg where
  "incoming =
     \<lparr> msg_id = ''M0'', msg_author = 7, msg_member = None, msg_guild = None, msg_channel = 3 \<rparr>"

text \<open>The same world with messages that never carry attachments.\<close>

definition still_env :: "demo_world env" where
  "still_env = (demo_env [(''M1'', 0)] 0)\<lparr>attachments_size := (\<lambda>w m. 0)\<rparr>"

text \<open>A world where a send yields one bare message and an edit leaves it with an attachment.\<close>

definition grow_env :: "demo_world env" where
  "grow_env = demo_env [(''M1'', 0)] 1"


text \<open>The context after a first reply that sent the bare message \<open>M1\<close>.\<close>

definition edited :: Context where
  "edited =
     (new_Context incoming)\<lparr>lastResponse := Some (demo_msg ''M1'' 3), shouldEdit := True\<rparr>"

text \<open>A world where a send yields one bare message and an edit leaves it bare.\<close>

definition quiet_env :: "demo_world env" where
  "quiet_env = demo_env [(''M1'', 0)] 0"


section \<open>Replying and editing\<close>

text \<open>The guard of \<open>reply\<close> in words: edit mode is on and no last response has attachments.\<close>

lemma edits_last_iff:
  "edits_last E s w \<longleftrightarrow>
     shouldEdit s \<and> (\<forall>m. lastResponse s = Some m \<longrightarrow> attachments_size E w m = 0)"
  by (simp add: edits_last_def split: option.splits)

lemma edit_context: "fst (snd (edit E c s w)) = s"
  by (simp add: edit_def split: content.splits option.splits prod.splits)

lemma edit_ignores_send: "edit (E\<lparr>channel_send := f\<rparr>) c s w = edit E c s w"
  by (simp add: edit_def split: content.splits option.splits)

lemma reply_edits: "edits_last E s w \<Longrightarrow> reply E c s w = edit E c s w"
  by (simp add: reply_def)

lemma reply_sends:
  assumes "\<not> edits_last E s w"
    and "channel_send E (channel s)
           (case c of Text str \<Rightarrow> Content str | Rich e \<Rightarrow> Builder e) w = (Inr ms, w')"
    and "ms \<noteq> []"
  shows "reply E c s w =
      (Inr (last ms),
       s\<lparr>lastResponse := Some (last ms), shouldEdit := (attachments_size E w' (last ms) = 0)\<rparr>,
       w')"
  using assms by (simp add: reply_def setLastResponse_def setEditable_def)

lemma reply_send_rejected:
  assumes "\<not> edits_last E s w"
    and "channel_send E (channel s)
           (case c of Text str \<Rightarrow> Content str | Rich e \<Rightarrow> Builder e) w = (Inl x, w')"
  shows "reply E c s w = (Inl (Rejected x), s, w')"
  using assms by (simp add: reply_def)

text \<open>
  A send that resolves to the empty array is outside what the library does; the code would
  clear \<open>lastResponse\<close> and fail on \<open>lastSent.attachments\<close>.
\<close>

lemma reply_send_empty:
  assumes "\<not> edits_last E s w"
    and "channel_send E (channel s)
           (case c of Text str \<Rightarrow> Content str | Rich e \<Rightarrow> Builder e) w = (Inr [], w')"
  shows "reply E c s w = (Inl JsTypeError, s\<lparr>lastResponse := None\<rparr>, w')"
  using assms by (simp add: reply_def setLastResponse_def)


lemma reply_messages: "messages (fst (snd (reply E c s w))) = messages s"
  by (simp add: reply_def edit_context setLastResponse_def setEditable_def
      split: prod.splits sum.splits option.splits)

lemma edited_edits_last: "edits_last grow_env edited [(''M1'', 0)]"
  by (simp add: edits_last_def edited_def grow_env_def demo_env_def demo_msg_def)

text \<open>
  C1. If \<open>shouldEdit\<close> is true and the last recorded response has no attachments, \<open>reply\<close>
  returns the result of \<open>edit\<close>. Otherwise it sends the content through the channel (an
  embed wrapped in the builder callback); when the send yields messages, the last of them
  becomes \<open>lastResponse\<close>, \<open>shouldEdit\<close> becomes the negation of its has-attachments
  test, and it is returned; when the send fails, the failure is passed on.
\<close>

theorem reply_edit_or_send:
  "(shouldEdit s \<and> (\<forall>m. lastResponse s = Some m \<longrightarrow> attachments_size E w m = 0) \<longrightarrow>
      reply E c s w = edit E c s w) \<and>
   (\<not> (shouldEdit s \<and> (\<forall>m. lastResponse s = Some m \<longrightarrow> attachments_size E w m = 0)) \<longrightarrow>
      (\<forall>ms w'. channel_send E (channel s)
                  (case c of Text str \<Rightarrow> Content str | Rich e \<Rightarrow> Builder e) w = (Inr ms, w') \<and>
                ms \<noteq> [] \<longrightarrow>
         reply E c s w =
           (Inr (last ms),
            s\<lparr>lastResponse := Some (last ms),
              shouldEdit := (attachments_size E w' (last ms) = 0)\<rparr>,
            w')) \<and>
      (\<forall>x w'. channel_send E (channel s)
                  (case c of Text str \<Rightarrow> Content str | Rich e \<Rightarrow> Builder e) w = (Inl x, w') \<longrightarrow>
         reply E c s w = (Inl (Rejected x), s, w')))"
  unfolding edits_last_iff [symmetric]
  using reply_edits [of E s w c] reply_sends [of E s w c] reply_send_rejected [of E s w c]
  by blast

text \<open>
  A fresh context replies with an embed and the send yields two messages, the second with
  two attachments; and a context in edit mode whose last response has none replies by
  editing.
\<close>

theorem reply_edit_or_send_witness:
  "reply (demo_env [(''M1'', 0), (''M2'', 2)] 0) (Rich (Embed 5)) (new_Context incoming) [] =
     (Inr (demo_msg ''M2'' 3),
      (new_Context incoming)\<lparr>lastResponse := Some (demo_msg ''M2'' 3), shouldEdit := False\<rparr>,
      [(''M1'', 0), (''M2'', 2)]) \<and>
   reply (demo_env [(''M1'', 0)] 0) (Text ''bye'')
      ((new_Context incoming)\<lparr>lastResponse := Some (demo_msg ''M1'' 3), shouldEdit := True\<rparr>)
      [(''M1'', 0)] =
   edit (demo_env [(''M1'', 0)] 0) (Text ''bye'')
      ((new_Context incoming)\<lparr>lastResponse := Some (demo_msg ''M1'' 3), shouldEdit := True\<rparr>)
      [(''M1'', 0)]"
proof -
  let ?E = "demo_env [(''M1'', 0), (''M2'', 2)] 0"
  let ?ms = "[demo_msg ''M1'' 3, demo_msg ''M2'' 3]"
  have a: "\<not> (shouldEdit (new_Context incoming) \<and>
      (\<forall>m. lastResponse (new_Context incoming) = Some m \<longrightarrow> attachments_size ?E [] m = 0))"
    by (simp add: new_Context_def)
  have b: "channel_send ?E (channel (new_Context incoming))
        (case Rich (Embed 5) of Text str \<Rightarrow> Content str | Rich e \<Rightarrow> Builder e) [] =
      (Inr ?ms, [(''M1'', 0), (''M2'', 2)]) \<and> ?ms \<noteq> []"
    by (simp add: demo_env_def new_Context_def incoming_def)
  have c: "attachments_size ?E [(''M1'', 0), (''M2'', 2)] (demo_msg ''M2'' 3) = 2"
    by (simp add: demo_env_def demo_msg_def)
  let ?F = "demo_env [(''M1'', 0)] 0"
  let ?s = "(new_Context incoming)\<lparr>lastResponse := Some (demo_msg ''M1'' 3), shouldEdit := True\<rparr>"
  have d: "shouldEdit ?s \<and>
      (\<forall>m. lastResponse ?s = Some m \<longrightarrow> attachments_size ?F [(''M1'', 0)] m = 0)"
    by (simp add: demo_env_def demo_msg_def)
  from reply_edit_or_send [of "new_Context incoming" ?E "[]" "Rich (Embed 5)"] a b
  have e: "reply ?E (Rich (Embed 5)) (new_Context incoming) [] =
     (Inr (last ?ms),
      (new_Context incoming)\<lparr>lastResponse := Some (last ?ms),
         shouldEdit := (attachments_size ?E [(''M1'', 0), (''M2'', 2)] (last ?ms) = 0)\<rparr>,
      [(''M1'', 0), (''M2'', 2)])"
    by blast
  from reply_edit_or_send [of ?s ?F "[(''M1'', 0)]" "Text ''bye''"] d
  have f: "reply ?F (Text ''bye'') ?s [(''M1'', 0)] = edit ?F (Text ''bye'') ?s [(''M1'', 0)]"
    by blast
  show ?thesis using e f c by simp
qed

text \<open>
  C10. \<open>edit\<close> returns the context as it received it: \<open>shouldEdit\<close>, \<open>lastResponse\<close> (the
  reference; the message it returns is not stored), \<open>messages\<close> and every other field. So
  does a \<open>reply\<close> that delegates to \<open>edit\<close>.
\<close>

theorem edit_keeps_context:
  "fst (snd (edit E c s w)) = s \<and>
   (edits_last E s w \<longrightarrow> fst (snd (reply E c s w)) = s)"
  using reply_edits [of E s w c] edit_context [of E c s w] by simp

theorem edit_keeps_context_witness:
  "fst (snd (reply grow_env (Text ''bye'') edited [(''M1'', 0)])) = edited"
proof -
  from edit_keeps_context [of grow_env "Text ''bye''" edited "[(''M1'', 0)]"] edited_edits_last
  show ?thesis by blast
qed

text \<open>
  C8. With no last response, \<open>edit\<close> fails with the runtime's error for a property access
  on \<open>undefined\<close>, which is none of the errors this class makes with \<open>new Error\<close>. With a
  last response it calls that message's \<open>edit\<close> with the string, or with the builder
  callback for an embed: the payload \<open>reply\<close> gives to \<open>channel.send\<close>.
\<close>

theorem edit_without_last_response:
  "(lastResponse s = None \<longrightarrow>
      edit E c s w = (Inl JsTypeError, s, w) \<and>
      (\<forall>reason. fst (edit E c s w) \<noteq> Inl (JsError reason))) \<and>
   (\<forall>m. lastResponse s = Some m \<longrightarrow>
      edit E c s w =
        (case message_edit E m (case c of Text str \<Rightarrow> Content str | Rich e \<Rightarrow> Builder e) w of
           (r, w') \<Rightarrow> (settle r, s, w')))"
  by (simp add: edit_def split: content.splits)

theorem edit_without_last_response_witness:
  "edit grow_env (Rich (Embed 2)) (new_Context incoming) [] =
     (Inl JsTypeError, new_Context incoming, []) \<and>
   edit grow_env (Rich (Embed 2)) edited [(''M1'', 0)] =
     (Inr (demo_msg ''M1'' 3), edited, [(''M1'', 1), (''M1'', 0)])"
proof -
  have a: "lastResponse (new_Context incoming) = None"
    by (simp add: new_Context_def)
  have b: "lastResponse edited = Some (demo_msg ''M1'' 3)"
    by (simp add: edited_def)
  have c: "message_edit grow_env (demo_msg ''M1'' 3)
        (case Rich (Embed 2) of Text str \<Rightarrow> Content str | Rich e \<Rightarrow> Builder e) [(''M1'', 0)] =
      (Inr (demo_msg ''M1'' 3), [(''M1'', 1), (''M1'', 0)])"
    by (simp add: grow_env_def demo_env_def demo_msg_def)
  from edit_without_last_response [of "new_Context incoming" grow_env "Rich (Embed 2)" "[]"] a
  have d: "edit grow_env (Rich (Embed 2)) (new_Context incoming) [] =
     (Inl JsTypeError, new_Context incoming, [])"
    by blast
  from edit_without_last_response [of edited grow_env "Rich (Embed 2)" "[(''M1'', 0)]"] b
  have "edit grow_env (Rich (Embed 2)) edited [(''M1'', 0)] =
      (case message_edit grow_env (demo_msg ''M1'' 3)
          (case Rich (Embed 2) of Text str \<Rightarrow> Content str | Rich e \<Rightarrow> Builder e) [(''M1'', 0)] of
         (r, w') \<Rightarrow> (settle r, edited, w'))"
    by blast
  then have "edit grow_env (Rich (Embed 2)) edited [(''M1'', 0)] =
     (Inr (demo_msg ''M1'' 3), edited, [(''M1'', 1), (''M1'', 0)])"
    unfolding c by (simp add: settle_def)
  with d show ?thesis by simp
qed

section \<open>Sequences of replies\<close>

text \<open>
  In edit mode, while the last response has no attachments in the world each reply of a
  run starts from, every reply of the run is an edit, whatever a send would do.
\<close>

lemma reply_all_edit_all_run:
  assumes "shouldEdit s" and "lastResponse s = Some r"
    and "\<forall>n < length cs. attachments_size E (snd (snd (reply_all E (take n cs) s w))) r = 0"
  shows "reply_all E cs s w = edit_all E cs s w"
  using assms(3)
proof (induction cs arbitrary: w)
  case Nil
  show ?case by simp
next
  case (Cons c cs)
  have a: "attachments_size E w r = 0"
    using Cons.prems [rule_format, of 0] by simp
  then have g: "edits_last E s w"
    using assms(1,2) by (simp add: edits_last_def)
  then have same: "reply E c s w = edit E c s w"
    by (rule reply_edits)
  obtain r' s' w' where e: "edit E c s w = (r', s', w')"
    by (cases "edit E c s w") auto
  have s': "s' = s" using edit_context [of E c s w] e by simp
  have "\<forall>n < length cs. attachments_size E (snd (snd (reply_all E (take n cs) s w'))) r = 0"
  proof (intro allI impI)
    fix n assume "n < length cs"
    then have "Suc n < length (c # cs)" by simp
    with Cons.prems
    have "attachments_size E (snd (snd (reply_all E (take (Suc n) (c # cs)) s w))) r = 0"
      by blast
    then show "attachments_size E (snd (snd (reply_all E (take n cs) s w'))) r = 0"
      using same e s' by (simp split: prod.splits)
  qed
  from Cons.IH [OF this] same e s' show ?case by simp
qed

lemma reply_all_ignores_send_run:
  assumes "shouldEdit s" and "lastResponse s = Some r"
    and "\<forall>n < length cs. attachments_size E (snd (snd (reply_all E (take n cs) s w))) r = 0"
  shows "reply_all (E\<lparr>channel_send := f\<rparr>) cs s w = reply_all E cs s w"
  using assms(3)
proof (induction cs arbitrary: w)
  case Nil
  show ?case by simp
next
  case (Cons c cs)
  have a: "attachments_size E w r = 0"
    using Cons.prems [rule_format, of 0] by simp
  then have g: "edits_last E s w"
    using assms(1,2) by (simp add: edits_last_def)
  from a have g': "edits_last (E\<lparr>channel_send := f\<rparr>) s w"
    using assms(1,2) by (simp add: edits_last_def)
  have same: "reply E c s w = edit E c s w"
    using g by (rule reply_edits)
  have same': "reply (E\<lparr>channel_send := f\<rparr>) c s w = edit E c s w"
    using reply_edits [OF g'] by (simp add: edit_ignores_send)
  obtain r' s' w' where e: "edit E c s w = (r', s', w')"
    by (cases "edit E c s w") auto
  have s': "s' = s" using edit_context [of E c s w] e by simp
  have "\<forall>n < length cs. attachments_size E (snd (snd (reply_all E (take n cs) s w'))) r = 0"
  proof (intro allI impI)
    fix n assume "n < length cs"
    then have "Suc n < length (c # cs)" by simp
    with Cons.prems
    have "attachments_size E (snd (snd (reply_all E (take (Suc n) (c # cs)) s w))) r = 0"
      by blast
    then show "attachments_size E (snd (snd (reply_all E (take n cs) s w'))) r = 0"
      using same e s' by (simp split: prod.splits)
  qed
  from Cons.IH [OF this] same same' e s' show ?case by simp
qed

lemma first_reply:
  assumes "reply E c (new_Context m0) w = (Inr r, s1, w1)"
  shows "lastResponse s1 = Some r \<and> shouldEdit s1 = (attachments_size E w1 r = 0)"
  using assms
  by (auto simp add: reply_def edits_last_def new_Context_def setLastResponse_def setEditable_def
      split: prod.splits sum.splits option.splits if_splits)

text \<open>
  C2. On a freshly constructed context, when the first reply has sent a message and that
  message has no attachments in the worlds of the run (after the first reply and after each
  later one), \<open>shouldEdit\<close> is true after the first reply and every later reply of the
  sequence is an edit of that message, whatever a send would do.
\<close>

theorem replies_without_attachments_edit:
  assumes "reply E c (new_Context m0) w = (Inr r, s1, w1)"
    and "\<forall>n \<le> length cs.
           attachments_size E (snd (snd (reply_all E (take n cs) s1 w1))) r = 0"
  shows "shouldEdit s1 \<and> lastResponse s1 = Some r \<and>
     reply_all E cs s1 w1 = edit_all E cs s1 w1 \<and>
     reply_all (E\<lparr>channel_send := f\<rparr>) cs s1 w1 = reply_all E cs s1 w1"
proof -
  from assms(2) have "attachments_size E (snd (snd (reply_all E (take 0 cs) s1 w1))) r = 0"
    by blast
  then have z: "attachments_size E w1 r = 0" by simp
  have l: "lastResponse s1 = Some r" and e: "shouldEdit s1"
    using first_reply [OF assms(1)] z by simp_all
  have run: "\<forall>n < length cs.
      attachments_size E (snd (snd (reply_all E (take n cs) s1 w1))) r = 0"
    using assms(2) by (simp add: less_imp_le)
  show ?thesis
    using l e reply_all_edit_all_run [OF e l run] reply_all_ignores_send_run [OF e l run]
    by simp
qed


text \<open>
  After a first reply in \<open>quiet_env\<close>, two more replies succeed by editing \<open>M1\<close> even when
  every send would fail.
\<close>

theorem replies_without_attachments_edit_witness:
  "shouldEdit (fst (snd (reply quiet_env (Text ''hi'') (new_Context incoming) []))) \<and>
   reply_all (quiet_env\<lparr>channel_send := (\<lambda>ch p w. (Inl ''down'', w))\<rparr>)
     [Text ''bye'', Rich (Embed 1)] edited [(''M1'', 0)] =
   ([Inr (demo_msg ''M1'' 3), Inr (demo_msg ''M1'' 3)], edited,
    [(''M1'', 0), (''M1'', 0), (''M1'', 0)])"
proof -
  let ?cs = "[Text ''bye'', Rich (Embed 1)]"
  have first: "reply quiet_env (Text ''hi'') (new_Context incoming) [] =
      (Inr (demo_msg ''M1'' 3), edited, [(''M1'', 0)])"
    by (simp add: reply_def edits_last_def new_Context_def demo_env_def incoming_def
        setLastResponse_def setEditable_def quiet_env_def edited_def)
  have step: "reply quiet_env c edited ((''M1'', 0) # w) =
      (Inr (demo_msg ''M1'' 3), edited, (''M1'', 0) # (''M1'', 0) # w)" for c w
    by (cases c)
       (simp_all add: reply_def edit_def edits_last_def demo_env_def demo_msg_def settle_def
          quiet_env_def edited_def)
  have run: "\<forall>n \<le> length ?cs. attachments_size quiet_env
      (snd (snd (reply_all quiet_env (take n ?cs) edited [(''M1'', 0)]))) (demo_msg ''M1'' 3) = 0"
  proof (intro allI impI)
    fix n assume "n \<le> length ?cs"
    then have "n = 0 \<or> n = Suc 0 \<or> n = Suc (Suc 0)" by auto
    then show "attachments_size quiet_env
      (snd (snd (reply_all quiet_env (take n ?cs) edited [(''M1'', 0)]))) (demo_msg ''M1'' 3) = 0"
      by (auto simp add: step) (simp_all add: quiet_env_def demo_env_def demo_msg_def)
  qed
  have all: "edit_all quiet_env ?cs edited [(''M1'', 0)] =
     ([Inr (demo_msg ''M1'' 3), Inr (demo_msg ''M1'' 3)], edited,
      [(''M1'', 0), (''M1'', 0), (''M1'', 0)])"
    by (simp add: edit_def demo_env_def demo_msg_def settle_def quiet_env_def edited_def)
  from replies_without_attachments_edit [OF first run,
      where f = "\<lambda>ch p w. (Inl ''down'', w)"]
  have "shouldEdit edited \<and>
     reply_all (quiet_env\<lparr>channel_send := (\<lambda>ch p w. (Inl ''down'', w))\<rparr>) ?cs edited [(''M1'', 0)] =
     edit_all quiet_env ?cs edited [(''M1'', 0)]"
    by simp
  then show ?thesis by (simp only: first fst_conv snd_conv all)
qed



section \<open>When the flag is written\<close>

text \<open>
  In \<open>grow_env\<close> the second reply edits \<open>M1\<close> and returns it with one attachment, and
  \<open>shouldEdit\<close> is still true.
\<close>

lemma grow_second:
  "reply grow_env (Text ''bye'') edited [(''M1'', 0)] =
     (Inr (demo_msg ''M1'' 3), edited, [(''M1'', 1), (''M1'', 0)])"
  by (simp add: reply_def edit_def edits_last_def new_Context_def demo_env_def incoming_def
        demo_msg_def settle_def grow_env_def edited_def)

text \<open>
  C3 as stated: after every reply that returns a message, \<open>shouldEdit\<close> is the negation of
  the has-attachments test of that message, the most recent outbound one. It fails for the
  reply above, which delegates to \<open>edit\<close>.
\<close>

theorem reply_reevaluates_shouldEdit_counterexample:
  "\<not> (\<forall>c s w r s' w'. reply grow_env c s w = (Inr r, s', w') \<longrightarrow>
         shouldEdit s' = (attachments_size grow_env w' r = 0))"
proof
  assume "\<forall>c s w r s' w'. reply grow_env c s w = (Inr r, s', w') \<longrightarrow>
         shouldEdit s' = (attachments_size grow_env w' r = 0)"
  from this grow_second
  have "shouldEdit edited =
      (attachments_size grow_env [(''M1'', 1), (''M1'', 0)] (demo_msg ''M1'' 3) = 0)"
    by blast
  then show False by (simp add: grow_env_def demo_env_def demo_msg_def edited_def)
qed

text \<open>
  C3, amended. On every reply the guard tests the attachments of the last response anew.
  A reply that passes the guard is the edit and leaves \<open>shouldEdit\<close> as it was; a reply
  that sends, and whose send yields messages, sets \<open>shouldEdit\<close> to the negation of the
  has-attachments test of the last message sent.
\<close>

theorem shouldEdit_after_reply:
  "(edits_last E s w \<longrightarrow>
      reply E c s w = edit E c s w \<and> shouldEdit (fst (snd (reply E c s w))) = shouldEdit s) \<and>
   (\<not> edits_last E s w \<longrightarrow>
      (\<forall>ms w'. channel_send E (channel s)
                  (case c of Text str \<Rightarrow> Content str | Rich e \<Rightarrow> Builder e) w = (Inr ms, w') \<and>
                ms \<noteq> [] \<longrightarrow>
         shouldEdit (fst (snd (reply E c s w))) = (attachments_size E w' (last ms) = 0)))"
  using reply_edits [of E s w c] edit_context [of E c s w] reply_sends [of E s w c]
  by (auto simp del: split_paired_All)

theorem shouldEdit_after_reply_witness:
  "reply grow_env (Text ''bye'') edited [(''M1'', 0)] =
     edit grow_env (Text ''bye'') edited [(''M1'', 0)] \<and>
   shouldEdit (fst (snd (reply grow_env (Text ''bye'') edited [(''M1'', 0)]))) \<and>
   attachments_size grow_env (snd (snd (reply grow_env (Text ''bye'') edited [(''M1'', 0)])))
     (demo_msg ''M1'' 3) = 1"
proof -
  from shouldEdit_after_reply [of grow_env edited "[(''M1'', 0)]" "Text ''bye''"] edited_edits_last
  have a: "reply grow_env (Text ''bye'') edited [(''M1'', 0)] =
        edit grow_env (Text ''bye'') edited [(''M1'', 0)] \<and>
      shouldEdit (fst (snd (reply grow_env (Text ''bye'') edited [(''M1'', 0)]))) = shouldEdit edited"
    by blast
  have b: "shouldEdit edited" by (simp add: edited_def)
  have c: "attachments_size grow_env (snd (snd (edit grow_env (Text ''bye'') edited [(''M1'', 0)])))
     (demo_msg ''M1'' 3) = 1"
    by (simp add: edit_def edited_def grow_env_def demo_env_def demo_msg_def)
  from a have a1: "reply grow_env (Text ''bye'') edited [(''M1'', 0)] =
        edit grow_env (Text ''bye'') edited [(''M1'', 0)]"
    by (rule conjunct1)
  from a b have a2: "shouldEdit (fst (snd (reply grow_env (Text ''bye'') edited [(''M1'', 0)])))"
    by blast
  from c have c': "attachments_size grow_env
      (snd (snd (reply grow_env (Text ''bye'') edited [(''M1'', 0)]))) (demo_msg ''M1'' 3) = 1"
    by (simp only: a1)
  from a1 a2 c' show ?thesis by blast
qed

section \<open>The map of responses\<close>

text \<open>
  The constructor makes \<open>messages\<close> empty, and neither \<open>reply\<close> nor \<open>edit\<close> writes it
  (\<open>reply_messages\<close>, \<open>edit_context\<close>).
\<close>

lemma new_Context_messages: "messages (new_Context m) = []"
  by (simp add: new_Context_def)

text \<open>
  C5. The first reply on a new context sends the message \<open>M1\<close> and returns it, and the
  map \<open>messages\<close>, documented as holding all responses, is still empty.
\<close>

theorem reply_records_nothing:
  "fst (reply still_env (Text ''hi'') (new_Context incoming) []) = Inr (demo_msg ''M1'' 3) \<and>
   messages (fst (snd (reply still_env (Text ''hi'') (new_Context incoming) []))) = []"
  by (simp add: reply_def edits_last_def new_Context_def demo_env_def incoming_def
        setLastResponse_def setEditable_def still_env_def)

section \<open>Resolving a type\<close>

text \<open>
  C6. \<open>resolve\<close> fails with the error \<open>Type "..." does not exist.\<close> exactly when the
  registry has no resolver of that name. When it has one, the resolver is called with the
  input and the context; its failure is passed on, and its result is returned, \<open>null\<close>
  standing for a result that is \<open>undefined\<close> or \<open>null\<close>.
\<close>

theorem resolve_unknown_type:
  "(fst (resolve E input tname s w) =
      Inl (JsError (''Type '' @ [CHR 0x22] @ tname @ [CHR 0x22] @ '' does not exist.'')) \<longleftrightarrow>
    resolver_type E w tname = None) \<and>
   (\<forall>resolver. resolver_type E w tname = Some resolver \<longrightarrow>
      resolve E input tname s w =
        (case resolver input s w of
           (Inl x, s', w') \<Rightarrow> (Inl (Rejected x), s', w')
         | (Inr v, s', w') \<Rightarrow> (Inr (if v = JUndefined \<or> v = JNull then JNull else v), s', w')))"
proof -
  have n: "nullish v \<longleftrightarrow> v = JUndefined \<or> v = JNull" for v
    by (cases v) simp_all
  show ?thesis
    by (auto simp add: resolve_def coalesce_def n split: option.splits prod.splits sum.splits)
qed

theorem resolve_unknown_type_witness:
  "fst (resolve grow_env ''5'' ''int'' (new_Context incoming) []) =
     Inl (JsError (''Type '' @ [CHR 0x22] @ ''int'' @ [CHR 0x22] @ '' does not exist.'')) \<and>
   fst (resolve grow_env ''5'' ''string'' (new_Context incoming) []) = Inr (JString ''5'') \<and>
   fst (resolve grow_env ''5'' ''nothing'' (new_Context incoming) []) = Inr JNull"
proof -
  have a: "resolver_type grow_env [] ''int'' = None"
    by (simp add: grow_env_def demo_env_def)
  have b: "resolver_type grow_env [] ''string'' = Some (\<lambda>input s w'. (Inr (JString input), s, w'))"
    by (simp add: grow_env_def demo_env_def)
  have c: "resolver_type grow_env [] ''nothing'' = Some (\<lambda>input s w'. (Inr JUndefined, s, w'))"
    by (simp add: grow_env_def demo_env_def)
  from resolve_unknown_type [of grow_env "''5''" "''int''" "new_Context incoming" "[]"] a
  have d: "fst (resolve grow_env ''5'' ''int'' (new_Context incoming) []) =
     Inl (JsError (''Type '' @ [CHR 0x22] @ ''int'' @ [CHR 0x22] @ '' does not exist.''))"
    by blast
  from resolve_unknown_type [of grow_env "''5''" "''string''" "new_Context incoming" "[]"] b
  have e: "resolve grow_env ''5'' ''string'' (new_Context incoming) [] =
      (Inr (JString ''5''), new_Context incoming, [])"
    by simp
  from resolve_unknown_type [of grow_env "''5''" "''nothing''" "new_Context incoming" "[]"] c
  have f: "resolve grow_env ''5'' ''nothing'' (new_Context incoming) [] =
      (Inr JNull, new_Context incoming, [])"
    by simp
  show ?thesis using d e f by simp
qed

section \<open>Translating\<close>




section \<open>The template tag\<close>

text \<open>
  What line 176 computes when the values arrive one by one, as they do through the tag
  function that \<open>t\<close> returns for a dictionary.
\<close>

lemma joined_two:
  "joined [a, b, c] [x, y] =
     a @ to_string (coalesce x (JString [])) @ b @ to_string (coalesce y (JString [])) @ c"
  by (simp add: joined_def js_index_def upt_rec coalesce_def)

lemma to_string_singleton: "to_string (JArray [v]) = to_string (coalesce v (JString []))"
  by (cases v) (simp_all add: coalesce_def)

text \<open>
  With no interpolated value or with one, the array passed as a single value prints as
  the value itself would, and the tag form of \<open>t\<close> translates the concatenation.
\<close>

lemma t_template_no_value: "t E (Strings [a]) [] = Inl (translate E a [])"
  by (simp add: t_def t_translate_def joined_def js_index_def coalesce_def)

lemma t_template_one_value: "t E (Strings [a, b]) [v] = Inl (translate E (joined [a, b] [v]) [])"
  by (simp add: t_def t_translate_def joined_def js_index_def upt_rec to_string_singleton)
     (simp add: coalesce_def)

lemma t_template_hello:
  "t E (Strings [''hello '', '''']) [JString ''world''] = Inl (translate E ''hello world'' [])"
  by (simp add: t_def t_translate_def joined_def js_index_def coalesce_def upt_rec)

lemma t_vars_two_values:
  "t E (Vars vars) [] = Inr tag \<Longrightarrow>
     tag [''a'', ''b'', ''c''] [JString ''x'', JString ''y''] = translate E ''axbyc'' vars"
  by (auto simp add: t_def t_translate_def joined_def js_index_def coalesce_def upt_rec)

text \<open>
  C4. With two interpolated values the tag form does not translate the concatenation of
  the segments and the values: for the segments \<open>a\<close>, \<open>b\<close>, \<open>c\<close> and the values \<open>x\<close>, \<open>y\<close>
  the path is \<open>ax,ybc\<close>, both values printed after the first segment with a comma between
  them, where the concatenation is \<open>axbyc\<close>.
\<close>

theorem t_template_two_values:
  "t E (Strings [''a'', ''b'', ''c'']) [JString ''x'', JString ''y''] =
     Inl (translate E ''ax,ybc'' [])"
  by (simp add: t_def t_translate_def joined_def js_index_def coalesce_def upt_rec)

end
